theory Spec2Isabelle
  imports Main "HOL-Library.AList"
begin

section \<open>The chat hub of Connecto (Services/ChatHub.cs)\<close>

text \<open>
  The hub keeps its whole state in static dictionaries and one queue. Every hub method
  is modelled as a function from the state (and the method's arguments) to the new
  state and the list of effects the method hands to SignalR, in program order.

  Conventions of the model:
  \<^item> identities, connection ids, session ids and payload texts are non-null strings;
    a C\# string that the source tests for null (a guest name, the image of
    \<open>SendImage\<close>) is a \<open>string option\<close>, \<open>None\<close> being null;
  \<^item> a \<open>HashSet<string>\<close> of connection ids is a duplicate-free list, enumerated in
    insertion order; a dictionary that the source enumerates or counts is an association
    list (\<open>map_of\<close> reads it, \<open>AList.update\<close> is the indexer, \<open>AList.delete\<close> is
    \<open>TryRemove\<close>), one that it only reads by key is a map; the two index dictionaries
    with \<open>byte\<close> values are sets of keys;
  \<^item> the clock reading and the fresh GUID of \<open>JoinChat\<close> are arguments;
  \<^item> every hub method runs as one step, except \<open>OnDisconnectedAsync\<close>, which is cut
    at its \<open>Task.Delay(20000)\<close>: the part before the delay leaves a pending timer in the
    state, and the part after it runs as a step of its own.
\<close>

subsection \<open>Payloads and effects\<close>

datatype json = JStr string | JNum int | JObj "(string \<times> json) list"

datatype target = Caller string | Client string | Group string | AllClients

datatype effect =
    Send target string json
  | AddToGroup string string
  | RemoveFromGroup string string
  | Abort string

subsection \<open>The static fields\<close>

record hub_state =
  UserConnectionMap :: "string \<rightharpoonup> string list"
  ConnectionProfiles :: "(string \<times> (string \<times> string option)) list"
  WaitingQueue :: "string list"
  WaitingIndex :: "string set"
  IdleIndex :: "string set"
  ActiveSessions :: "(string \<times> (string \<times> string)) list"
  SessionKeys :: "string \<rightharpoonup> string"
  GraceTimers :: "(string \<times> string option) list"

definition init_state :: hub_state where
  "init_state = \<lparr> UserConnectionMap = Map.empty, ConnectionProfiles = [],
     WaitingQueue = [], WaitingIndex = {}, IdleIndex = {},
     ActiveSessions = [], SessionKeys = Map.empty, GraceTimers = [] \<rparr>"

subsection \<open>String helpers of the runtime\<close>

definition is_white_space :: "char \<Rightarrow> bool" where
  "is_white_space c = (c \<in> set [CHR '' '', CHR 0x09, CHR 0x0A, CHR 0x0B, CHR 0x0C, CHR 0x0D])"

text \<open>\<open>string.IsNullOrWhiteSpace\<close> on a non-null string (ASCII white space).\<close>

definition IsNullOrWhiteSpace :: "string \<Rightarrow> bool" where
  "IsNullOrWhiteSpace u = list_all is_white_space u"

definition IsNullOrEmpty :: "string option \<Rightarrow> bool" where
  "IsNullOrEmpty x = (case x of None \<Rightarrow> True | Some t \<Rightarrow> t = [])"

text \<open>The null-coalescing operator \<open>??\<close>.\<close>

definition coalesce :: "string option \<Rightarrow> string \<Rightarrow> string" where
  "coalesce x d = (case x of None \<Rightarrow> d | Some t \<Rightarrow> t)"

text \<open>Decimal rendering of the clock reading (Unix milliseconds) in a session id.\<close>

function dec :: "nat \<Rightarrow> string" where
  "dec n = (if n < 10 then [''0123456789'' ! n] else dec (n div 10) @ [''0123456789'' ! (n mod 10)])"
  by pat_completeness auto
termination
  by (relation "measure id") auto

declare dec.simps [simp del]

subsection \<open>Helpers: queue / name / send\<close>

definition EnqueueWaiting :: "string \<Rightarrow> hub_state \<Rightarrow> hub_state" where
  "EnqueueWaiting userId s =
     (let s1 = s\<lparr>IdleIndex := IdleIndex s - {userId}\<rparr>
      in if userId \<notin> WaitingIndex s1
         then s1\<lparr>WaitingIndex := insert userId (WaitingIndex s1),
                 WaitingQueue := WaitingQueue s1 @ [userId]\<rparr>
         else s1)"

text \<open>
  The loop of \<open>TryDequeueWaiting\<close>: heads that are not in \<open>WaitingIndex\<close> are dropped;
  the first head that is in it is removed from the index and returned with the rest of
  the queue.
\<close>

fun dequeue_loop :: "string list \<Rightarrow> string set \<Rightarrow> string option \<times> string list \<times> string set" where
  "dequeue_loop [] idx = (None, [], idx)"
| "dequeue_loop (u # q) idx =
     (if u \<in> idx then (Some u, q, idx - {u}) else dequeue_loop q idx)"

definition TryDequeueWaiting :: "hub_state \<Rightarrow> string option \<times> hub_state" where
  "TryDequeueWaiting s =
     (case dequeue_loop (WaitingQueue s) (WaitingIndex s) of
        (r, q, idx) \<Rightarrow> (r, s\<lparr>WaitingQueue := q, WaitingIndex := idx\<rparr>))"

definition MoveToIdle :: "string \<Rightarrow> hub_state \<Rightarrow> hub_state" where
  "MoveToIdle userId s =
     s\<lparr>WaitingIndex := WaitingIndex s - {userId}, IdleIndex := insert userId (IdleIndex s)\<rparr>"

definition WaitingIndexTryRemove :: "string \<Rightarrow> hub_state \<Rightarrow> hub_state" where
  "WaitingIndexTryRemove userId s = s\<lparr>WaitingIndex := WaitingIndex s - {userId}\<rparr>"

definition IdleIndexTryRemove :: "string \<Rightarrow> hub_state \<Rightarrow> hub_state" where
  "IdleIndexTryRemove userId s = s\<lparr>IdleIndex := IdleIndex s - {userId}\<rparr>"

definition RebuildWaitingQueueExcluding :: "string \<Rightarrow> hub_state \<Rightarrow> hub_state" where
  "RebuildWaitingQueueExcluding excludeUserId s =
     s\<lparr>WaitingQueue := filter (\<lambda>u. u \<noteq> excludeUserId) (WaitingQueue s)\<rparr>"

definition RemoveFromIdle :: "string \<Rightarrow> hub_state \<Rightarrow> hub_state" where
  "RemoveFromIdle userId s =
     (if userId = [] then s
      else RebuildWaitingQueueExcluding userId
             (s\<lparr>IdleIndex := IdleIndex s - {userId}, WaitingIndex := WaitingIndex s - {userId}\<rparr>))"

text \<open>The \<open>foreach\<close> of \<open>TryGetAnyGuestNameForUser\<close> over the connections of a user.\<close>

fun first_guest_name :: "(string \<times> (string \<times> string option)) list \<Rightarrow> string list \<Rightarrow> string option" where
  "first_guest_name ps [] = None"
| "first_guest_name ps (cid # cids) =
     (case map_of ps cid of
        Some (_, g) \<Rightarrow> if \<not> IsNullOrEmpty g then g else first_guest_name ps cids
      | None \<Rightarrow> first_guest_name ps cids)"

definition TryGetAnyGuestNameForUser :: "hub_state \<Rightarrow> string \<Rightarrow> string option" where
  "TryGetAnyGuestNameForUser s userId =
     (case UserConnectionMap s userId of
        Some conns \<Rightarrow> first_guest_name (ConnectionProfiles s) conns
      | None \<Rightarrow> None)"

definition SendToUser :: "hub_state \<Rightarrow> string \<Rightarrow> string \<Rightarrow> json \<Rightarrow> effect list" where
  "SendToUser s userId method payload =
     (case UserConnectionMap s userId of
        None \<Rightarrow> []
      | Some conns \<Rightarrow>
          if length conns = 0 then []
          else map (\<lambda>cid. Send (Client cid) method payload) conns)"

definition BroadcastActiveUserCount :: "hub_state \<Rightarrow> effect" where
  "BroadcastActiveUserCount s =
     Send AllClients ''ActiveUserCountUpdated'' (JNum (int (length (ConnectionProfiles s))))"

text \<open>The connections of a user as group operations (the \<open>foreach\<close> loops over a set).\<close>

definition group_adds :: "hub_state \<Rightarrow> string \<Rightarrow> string \<Rightarrow> effect list" where
  "group_adds s userId grp =
     (case UserConnectionMap s userId of
        None \<Rightarrow> [] | Some conns \<Rightarrow> map (\<lambda>cid. AddToGroup cid grp) conns)"

definition group_removes :: "hub_state \<Rightarrow> string \<Rightarrow> string \<Rightarrow> effect list" where
  "group_removes s userId grp =
     (case UserConnectionMap s userId of
        None \<Rightarrow> [] | Some conns \<Rightarrow> map (\<lambda>cid. RemoveFromGroup cid grp) conns)"

subsection \<open>Connection registry\<close>

definition OnConnectedAsync :: "hub_state \<Rightarrow> string \<Rightarrow> string \<Rightarrow> hub_state \<times> effect list" where
  "OnConnectedAsync s connectionId userId =
     (if IsNullOrWhiteSpace userId
      then (s, [Send (Caller connectionId) ''Error'' (JStr ''Missing userId''), Abort connectionId])
      else
        let conns = (case UserConnectionMap s userId of
                       None \<Rightarrow> [connectionId]
                     | Some existing \<Rightarrow>
                         if connectionId \<in> set existing then existing else existing @ [connectionId]);
            s1 = s\<lparr>UserConnectionMap := (UserConnectionMap s)(userId \<mapsto> conns)\<rparr>;
            s2 = s1\<lparr>ConnectionProfiles :=
                      AList.update connectionId (userId, Some []) (ConnectionProfiles s1)\<rparr>
        in (s2, [Send (Caller connectionId) ''ReceiveConnectionId'' (JStr connectionId),
                 BroadcastActiveUserCount s2]))"

definition RegisterUser :: "hub_state \<Rightarrow> string \<Rightarrow> string option \<Rightarrow> hub_state \<times> effect list" where
  "RegisterUser s connectionId guestName =
     (case map_of (ConnectionProfiles s) connectionId of
        Some (existingUserId, _) \<Rightarrow>
          (s\<lparr>ConnectionProfiles :=
               AList.update connectionId (existingUserId, guestName) (ConnectionProfiles s)\<rparr>, [])
      | None \<Rightarrow> (s, []))"

definition JoinSession :: "hub_state \<Rightarrow> string \<Rightarrow> string \<Rightarrow> string \<Rightarrow> hub_state \<times> effect list" where
  "JoinSession s connectionId sessionId userId =
     (if map_of (ConnectionProfiles s) connectionId = None
      then (s\<lparr>ConnectionProfiles :=
                AList.update connectionId (userId, Some []) (ConnectionProfiles s)\<rparr>,
            [AddToGroup connectionId sessionId])
      else (s, [AddToGroup connectionId sessionId]))"

subsection \<open>Matching and sessions\<close>

definition waiting_msg :: "string \<Rightarrow> effect" where
  "waiting_msg connectionId = Send (Caller connectionId) ''Waiting'' (JStr ''Waiting for a match...'')"

definition session_payload :: "string \<Rightarrow> string \<Rightarrow> string \<Rightarrow> string \<Rightarrow> string \<Rightarrow> string \<Rightarrow> json" where
  "session_payload sessionId meId meName partnerId partnerName sessionKey =
     JObj [(''sessionId'', JStr sessionId),
           (''me'', JObj [(''id'', JStr meId), (''name'', JStr meName)]),
           (''partner'', JObj [(''id'', JStr partnerId), (''name'', JStr partnerName)]),
           (''key'', JStr sessionKey)]"

text \<open>
  \<open>JoinChat\<close> is its \<open>try\<close> block: with non-null identities none of the calls in it
  throws, so the \<open>catch\<close> block (which enqueues the caller and sends a \<open>Waiting\<close>
  message) is never entered.
\<close>

definition JoinChat :: "hub_state \<Rightarrow> string \<Rightarrow> nat \<Rightarrow> string \<Rightarrow> hub_state \<times> effect list" where
  "JoinChat s connectionId now guid =
     (case map_of (ConnectionProfiles s) connectionId of
        None \<Rightarrow> (s, [Send (Caller connectionId) ''Waiting'' (JStr ''User not registered properly.'')])
      | Some (userId, _) \<Rightarrow>
          (case TryDequeueWaiting s of
             (None, s1) \<Rightarrow> (EnqueueWaiting userId s1, [waiting_msg connectionId])
           | (Some matchedUserId, s1) \<Rightarrow>
               if (case UserConnectionMap s1 matchedUserId of
                     None \<Rightarrow> True | Some matchedConnections \<Rightarrow> length matchedConnections = 0)
               then (EnqueueWaiting userId s1, [waiting_msg connectionId])
               else if matchedUserId = userId
               then (EnqueueWaiting userId s1, [waiting_msg connectionId])
               else
                 let sessionId = userId @ ''-'' @ matchedUserId @ ''-'' @ dec now;
                     s2 = s1\<lparr>ActiveSessions :=
                               AList.update sessionId (userId, matchedUserId) (ActiveSessions s1)\<rparr>;
                     sessionKey = guid;
                     s3 = s2\<lparr>SessionKeys := (SessionKeys s2)(sessionId \<mapsto> sessionKey)\<rparr>;
                     adds = group_adds s3 userId sessionId @ group_adds s3 matchedUserId sessionId;
                     s4 = RemoveFromIdle matchedUserId (RemoveFromIdle userId s3);
                     meName = coalesce (TryGetAnyGuestNameForUser s4 userId) ''Unknown'';
                     partnerName = coalesce (TryGetAnyGuestNameForUser s4 matchedUserId) ''Unknown''
                 in (s4, adds
                      @ SendToUser s4 userId ''SessionUpdate''
                          (session_payload sessionId userId meName matchedUserId partnerName sessionKey)
                      @ SendToUser s4 matchedUserId ''SessionUpdate''
                          (session_payload sessionId matchedUserId partnerName userId meName sessionKey))))"

definition SkipChat :: "hub_state \<Rightarrow> string \<Rightarrow> string \<Rightarrow> hub_state \<times> effect list" where
  "SkipChat s connectionId sessionId =
     (case map_of (ConnectionProfiles s) connectionId of
        None \<Rightarrow> (s, [])
      | Some (userId, _) \<Rightarrow>
          let skipperName = coalesce (TryGetAnyGuestNameForUser s userId) ''Partner''
          in (case map_of (ActiveSessions s) sessionId of
                None \<Rightarrow> (s, [])
              | Some (user1, user2) \<Rightarrow>
                  let s1 = s\<lparr>ActiveSessions := AList.delete sessionId (ActiveSessions s)\<rparr>;
                      otherUserId = (if user1 = userId then user2 else user1);
                      effs = SendToUser s1 otherUserId ''PartnerSkipped'' (JStr (skipperName @ '' left the chat.''))
                           @ SendToUser s1 userId ''YouSkipped'' (JStr ''You left the chat.'')
                           @ group_removes s1 userId sessionId
                           @ group_removes s1 otherUserId sessionId;
                      s2 = s1\<lparr>SessionKeys := (SessionKeys s1)(sessionId := None)\<rparr>
                  in (MoveToIdle otherUserId (MoveToIdle userId s2), effs)))"

text \<open>
  The clean-up loop of \<open>NextChat\<close> over the snapshot \<open>ActiveSessions.ToArray()\<close>: every
  session of the snapshot that names the user is removed with its key.
\<close>

fun next_cleanup :: "string \<Rightarrow> (string \<times> (string \<times> string)) list \<Rightarrow> hub_state \<Rightarrow> hub_state \<times> effect list" where
  "next_cleanup userId [] s = (s, [])"
| "next_cleanup userId ((k, (u1, u2)) # rest) s =
     (if u1 = userId \<or> u2 = userId
      then
        let s1 = s\<lparr>ActiveSessions := AList.delete k (ActiveSessions s),
                   SessionKeys := (SessionKeys s)(k := None)\<rparr>;
            otherUserId = (if u1 = userId then u2 else u1);
            effs = group_removes s1 userId k @ group_removes s1 otherUserId k
        in (case next_cleanup userId rest s1 of (s2, effs2) \<Rightarrow> (s2, effs @ effs2))
      else next_cleanup userId rest s)"

definition NextChat :: "hub_state \<Rightarrow> string \<Rightarrow> nat \<Rightarrow> string \<Rightarrow> hub_state \<times> effect list" where
  "NextChat s connectionId now guid =
     (case map_of (ConnectionProfiles s) connectionId of
        None \<Rightarrow> (s, [])
      | Some (userId, _) \<Rightarrow>
          (case next_cleanup userId (ActiveSessions s) s of
             (s1, effs) \<Rightarrow>
               let s2 = EnqueueWaiting userId (WaitingIndexTryRemove userId (RemoveFromIdle userId s1))
               in (case JoinChat s2 connectionId now guid of
                     (s3, effs3) \<Rightarrow> (s3, effs @ effs3))))"

subsection \<open>Message and media relay\<close>

definition caller_error :: "string \<Rightarrow> string \<Rightarrow> effect" where
  "caller_error connectionId msg = Send (Caller connectionId) ''Error'' (JStr msg)"

definition SendMessage :: "hub_state \<Rightarrow> string \<Rightarrow> string \<Rightarrow> string \<Rightarrow> nat \<Rightarrow> hub_state \<times> effect list" where
  "SendMessage s connectionId sessionId message now =
     (case map_of (ConnectionProfiles s) connectionId of
        None \<Rightarrow> (s, [caller_error connectionId ''User not found.''])
      | Some (userId, _) \<Rightarrow>
          (case map_of (ActiveSessions s) sessionId of
             None \<Rightarrow> (s, [caller_error connectionId ''Invalid session.''])
           | Some (user1, user2) \<Rightarrow>
               if user1 \<noteq> userId \<and> user2 \<noteq> userId
               then (s, [caller_error connectionId ''Invalid session for user.''])
               else
                 let fromName = coalesce (TryGetAnyGuestNameForUser s userId) ''Unknown''
                 in (s, [Send (Group sessionId) ''ReceiveMessage''
                           (JObj [(''userId'', JStr userId), (''from'', JStr fromName),
                                  (''text'', JStr message), (''timestamp'', JNum (int now))])])))"

definition SendVoiceNote :: "hub_state \<Rightarrow> string \<Rightarrow> string \<Rightarrow> string \<Rightarrow> hub_state \<times> effect list" where
  "SendVoiceNote s connectionId sessionId base64Audio =
     (case map_of (ConnectionProfiles s) connectionId of
        None \<Rightarrow> (s, [caller_error connectionId ''User not found.''])
      | Some (userId, _) \<Rightarrow>
          (s, [Send (Group sessionId) ''ReceiveVoiceNote''
                 (JObj [(''userId'', JStr userId),
                        (''from'', JStr (coalesce (TryGetAnyGuestNameForUser s userId) ''Unknown'')),
                        (''audio'', JStr base64Audio)])]))"

definition SendImage :: "hub_state \<Rightarrow> string \<Rightarrow> string \<Rightarrow> string option \<Rightarrow> nat \<Rightarrow> hub_state \<times> effect list" where
  "SendImage s sessionId fromUser base64Image now =
     (let uploading = Send (Group sessionId) ''UploadingImage'' (JObj [(''From'', JStr fromUser)])
      in if IsNullOrEmpty base64Image then (s, [uploading])
         else
           let fromName = coalesce (TryGetAnyGuestNameForUser s fromUser) ''Unknown''
           in (s, [uploading,
                   Send (Group sessionId) ''ReceiveImage''
                     (JObj [(''userId'', JStr fromUser), (''from'', JStr fromName),
                            (''Base64'', JStr (coalesce base64Image [])),
                            (''Timestamp'', JNum (int now))])]))"

subsection \<open>Disconnects and removal\<close>

text \<open>
  \<open>OnDisconnectedAsync\<close> up to its \<open>Task.Delay\<close>. When the connection was the last one
  of its user, the method is suspended: the user and the departing name wait in
  \<open>GraceTimers\<close>, and nothing has been broadcast yet.
\<close>

definition OnDisconnectedAsync :: "hub_state \<Rightarrow> string \<Rightarrow> hub_state \<times> effect list" where
  "OnDisconnectedAsync s connectionId =
     (case map_of (ConnectionProfiles s) connectionId of
        None \<Rightarrow> (s, [BroadcastActiveUserCount s])
      | Some (userId, departingName) \<Rightarrow>
          let s1 = s\<lparr>ConnectionProfiles := AList.delete connectionId (ConnectionProfiles s)\<rparr>
          in (case UserConnectionMap s1 userId of
                None \<Rightarrow> (s1, [BroadcastActiveUserCount s1])
              | Some conns \<Rightarrow>
                  let conns' = removeAll connectionId conns;
                      s2 = s1\<lparr>UserConnectionMap := (UserConnectionMap s1)(userId \<mapsto> conns')\<rparr>
                  in if length conns' = 0
                     then (s2\<lparr>GraceTimers := GraceTimers s2 @ [(userId, departingName)]\<rparr>, [])
                     else (s2, [BroadcastActiveUserCount s2])))"

text \<open>
  The rest of \<open>OnDisconnectedAsync\<close>, after the delay: the re-check of the user's
  connections and, when there is still none, the teardown. \<open>FirstOrDefault\<close> is
  \<open>find\<close> on the enumeration of the sessions; the pair that \<open>TryRemove\<close> hands back is
  the one just found.
\<close>

definition is_participant :: "string \<Rightarrow> string \<times> (string \<times> string) \<Rightarrow> bool" where
  "is_participant userId e = (fst (snd e) = userId \<or> snd (snd e) = userId)"

definition after_grace :: "hub_state \<Rightarrow> string \<Rightarrow> string option \<Rightarrow> hub_state \<times> effect list" where
  "after_grace s userId departingName =
     (if (case UserConnectionMap s userId of None \<Rightarrow> False | Some checkConns \<Rightarrow> length checkConns > 0)
      then (s, [BroadcastActiveUserCount s])
      else
        let s1 = s\<lparr>UserConnectionMap := (UserConnectionMap s)(userId := None)\<rparr>;
            s2 = RebuildWaitingQueueExcluding userId
                   (IdleIndexTryRemove userId (WaitingIndexTryRemove userId s1))
        in (case find (is_participant userId) (ActiveSessions s2) of
              None \<Rightarrow> (s2, [BroadcastActiveUserCount s2])
            | Some (k, (user1, user2)) \<Rightarrow>
                let s3 = s2\<lparr>ActiveSessions := AList.delete k (ActiveSessions s2)\<rparr>;
                    otherUserId = (if user1 = userId then user2 else user1);
                    effs = SendToUser s3 otherUserId ''PartnerDisconnected''
                             (JStr (coalesce departingName ''Partner'' @ '' left the chat.''));
                    s4 = MoveToIdle otherUserId s3;
                    s5 = s4\<lparr>SessionKeys := (SessionKeys s4)(k := None)\<rparr>
                in (s5, effs @ [BroadcastActiveUserCount s5])))"

text \<open>A pending timer fires: it leaves \<open>GraceTimers\<close> and the method resumes.\<close>

definition grace_elapsed :: "hub_state \<Rightarrow> string \<Rightarrow> string option \<Rightarrow> hub_state \<times> effect list" where
  "grace_elapsed s userId departingName =
     (if (userId, departingName) \<in> set (GraceTimers s)
      then after_grace (s\<lparr>GraceTimers := remove1 (userId, departingName) (GraceTimers s)\<rparr>)
             userId departingName
      else (s, []))"

text \<open>The loop of \<open>RemoveUser\<close> over the snapshot of the sessions.\<close>

fun remove_cleanup :: "string \<Rightarrow> (string \<times> (string \<times> string)) list \<Rightarrow> hub_state \<Rightarrow> hub_state \<times> effect list" where
  "remove_cleanup userId [] s = (s, [])"
| "remove_cleanup userId ((k, (u1, u2)) # rest) s =
     (if u1 = userId \<or> u2 = userId
      then
        let s1 = s\<lparr>ActiveSessions := AList.delete k (ActiveSessions s)\<rparr>;
            otherUserId = (if u1 = userId then u2 else u1);
            effs = SendToUser s1 otherUserId ''PartnerDisconnected''
                     (JStr (coalesce (TryGetAnyGuestNameForUser s1 userId) ''Partner'' @ '' left the chat.''));
            s2 = MoveToIdle otherUserId s1;
            s3 = s2\<lparr>SessionKeys := (SessionKeys s2)(k := None)\<rparr>
        in (case remove_cleanup userId rest s3 of (s4, effs4) \<Rightarrow> (s4, effs @ effs4))
      else remove_cleanup userId rest s)"

definition RemoveUser :: "hub_state \<Rightarrow> string \<Rightarrow> hub_state \<times> effect list" where
  "RemoveUser s userId =
     (case UserConnectionMap s userId of
        None \<Rightarrow> (s, [])
      | Some conns \<Rightarrow>
          let s1 = s\<lparr>UserConnectionMap := (UserConnectionMap s)(userId := None)\<rparr>;
              s2 = s1\<lparr>ConnectionProfiles := fold AList.delete conns (ConnectionProfiles s1)\<rparr>;
              s3 = RebuildWaitingQueueExcluding userId
                     (IdleIndexTryRemove userId (WaitingIndexTryRemove userId s2))
          in remove_cleanup userId (ActiveSessions s3) s3)"

subsection \<open>Call signalling\<close>

definition call_payload :: "string \<Rightarrow> string \<Rightarrow> json" where
  "call_payload fromField sessionId = JObj [(''From'', JStr fromField), (''SessionId'', JStr sessionId)]"

definition AcceptCall :: "hub_state \<Rightarrow> string \<Rightarrow> string \<Rightarrow> string \<Rightarrow> hub_state \<times> effect list" where
  "AcceptCall s sessionId fromUser toUser =
     (s, SendToUser s fromUser ''CallAccepted'' (call_payload toUser sessionId)
       @ SendToUser s toUser ''CallAccepted'' (call_payload fromUser sessionId))"

definition RejectCall :: "hub_state \<Rightarrow> string \<Rightarrow> string \<Rightarrow> string \<Rightarrow> hub_state \<times> effect list" where
  "RejectCall s sessionId fromUser toUser =
     (s, SendToUser s fromUser ''CallRejected'' (call_payload toUser sessionId)
       @ SendToUser s toUser ''CallRejected'' (call_payload toUser sessionId))"

subsection \<open>The hub as a transition system\<close>

datatype hub_op =
    Connect string string
  | Register string "string option"
  | Join string nat string
  | Skip string string
  | Next string nat string
  | Message string string string nat
  | VoiceNote string string string
  | Image string string "string option" nat
  | Disconnect string
  | GraceElapsed string "string option"
  | Remove string
  | Accept string string string
  | Reject string string string
  | JoinSess string string string

fun step :: "hub_state \<Rightarrow> hub_op \<Rightarrow> hub_state \<times> effect list" where
  "step s (Connect cid userId) = OnConnectedAsync s cid userId"
| "step s (Register cid guestName) = RegisterUser s cid guestName"
| "step s (Join cid now guid) = JoinChat s cid now guid"
| "step s (Skip cid sessionId) = SkipChat s cid sessionId"
| "step s (Next cid now guid) = NextChat s cid now guid"
| "step s (Message cid sessionId message now) = SendMessage s cid sessionId message now"
| "step s (VoiceNote cid sessionId audio) = SendVoiceNote s cid sessionId audio"
| "step s (Image sessionId fromUser base64Image now) = SendImage s sessionId fromUser base64Image now"
| "step s (Disconnect cid) = OnDisconnectedAsync s cid"
| "step s (GraceElapsed userId departingName) = grace_elapsed s userId departingName"
| "step s (Remove userId) = RemoveUser s userId"
| "step s (Accept sessionId fromUser toUser) = AcceptCall s sessionId fromUser toUser"
| "step s (Reject sessionId fromUser toUser) = RejectCall s sessionId fromUser toUser"
| "step s (JoinSess cid sessionId userId) = JoinSession s cid sessionId userId"

text \<open>A run executes the operations in order and collects their effects.\<close>

fun run :: "hub_state \<Rightarrow> hub_op list \<Rightarrow> hub_state \<times> effect list" where
  "run s [] = (s, [])"
| "run s (op # ops) =
     (case step s op of (s1, effs) \<Rightarrow>
        (case run s1 ops of (s2, effs2) \<Rightarrow> (s2, effs @ effs2)))"

subsection \<open>The matching contract in the words of the specification\<close>

text \<open>
  The specification's \<open>requestMatch\<close>: heads of the queue that are stale (no live
  connection) or equal to the caller are discarded one after the other; the first
  other head is the match; when the queue runs out, the caller is enqueued. The result
  is the match, if any, and the queue that is left.
\<close>

definition has_live_connection :: "hub_state \<Rightarrow> string \<Rightarrow> bool" where
  "has_live_connection s userId =
     (case UserConnectionMap s userId of None \<Rightarrow> False | Some conns \<Rightarrow> length conns > 0)"

fun spec_requestMatch :: "(string \<Rightarrow> bool) \<Rightarrow> string \<Rightarrow> string list \<Rightarrow> string option \<times> string list" where
  "spec_requestMatch live caller [] = (None, [caller])"
| "spec_requestMatch live caller (h # q) =
     (if \<not> live h \<or> h = caller then spec_requestMatch live caller q else (Some h, q))"

subsection \<open>Example states\<close>

text \<open>
  Identity \<open>z\<close> is waiting but lost its only connection (its grace timer is pending),
  identity \<open>b\<close> waits behind it, and identity \<open>a\<close> is connected and about to join.
\<close>

definition stale_head_state :: hub_state where
  "stale_head_state = \<lparr> UserConnectionMap = [''a'' \<mapsto> [''c1''], ''b'' \<mapsto> [''c2''], ''z'' \<mapsto> []],
     ConnectionProfiles = [(''c1'', (''a'', Some [])), (''c2'', (''b'', Some []))],
     WaitingQueue = [''z'', ''b''], WaitingIndex = {''z'', ''b''}, IdleIndex = {},
     ActiveSessions = [], SessionKeys = Map.empty, GraceTimers = [(''z'', Some [])] \<rparr>"

text \<open>Ann (\<open>a\<close>) waits and Bob (\<open>b\<close>) is connected.\<close>

definition waiting_state :: hub_state where
  "waiting_state = fst (run init_state
     [Connect ''c1'' ''a'', Connect ''c2'' ''b'', Register ''c1'' (Some ''Ann''),
      Register ''c2'' (Some ''Bob''), Join ''c1'' 1 ''k1''])"

text \<open>Identities \<open>a\<close> and \<open>b\<close> are in the session \<open>b-a-2\<close>.\<close>

definition paired_state :: hub_state where
  "paired_state = fst (run init_state
     [Connect ''c1'' ''a'', Connect ''c2'' ''b'', Join ''c1'' 1 ''k1'', Join ''c2'' 2 ''k2''])"

subsection \<open>Reachable states\<close>

text \<open>
  The states the hub can reach from the empty one, every operation running as one step.
  \<open>JoinSession\<close> is admitted with a non-empty identity only: it can bind a connection
  to the empty identity, for which \<open>RemoveFromIdle\<close> returns early.
\<close>

fun admitted :: "hub_op \<Rightarrow> bool" where
  "admitted (JoinSess cid sessionId userId) = (userId \<noteq> [])"
| "admitted _ = True"

inductive reachable :: "hub_state \<Rightarrow> bool" where
  reachable_init: "reachable init_state"
| reachable_step: "reachable s \<Longrightarrow> admitted op \<Longrightarrow> reachable (fst (step s op))"

text \<open>
  The invariant behind the pool properties: the queue never holds more than one entry,
  the two indexes are disjoint, and no profile names the empty identity.
\<close>

definition pools_inv :: "hub_state \<Rightarrow> bool" where
  "pools_inv s =
     (length (WaitingQueue s) \<le> 1
      \<and> WaitingIndex s \<inter> IdleIndex s = {}
      \<and> list_all (\<lambda>e. fst (snd e) \<noteq> []) (ConnectionProfiles s))"

text \<open>
  Identity \<open>b\<close> calls \<open>JoinChat\<close> again while paired with \<open>a\<close>, and \<open>a\<close> then skips the
  session.
\<close>

definition idle_in_queue_state :: hub_state where
  "idle_in_queue_state = fst (run init_state
     [Connect ''c1'' ''a'', Connect ''c2'' ''b'', Join ''c1'' 1 ''k1'', Join ''c2'' 2 ''k2'',
      Join ''c2'' 3 ''k3'', Skip ''c1'' ''b-a-2''])"

text \<open>After that, identity \<open>c\<close> connects and is about to join.\<close>

definition idle_head_state :: hub_state where
  "idle_head_state = fst (run idle_in_queue_state [Connect ''c3'' ''c''])"

section \<open>Properties\<close>

named_theorems hub_defs

lemmas [hub_defs] = init_state_def is_white_space_def IsNullOrWhiteSpace_def IsNullOrEmpty_def
  coalesce_def EnqueueWaiting_def TryDequeueWaiting_def MoveToIdle_def WaitingIndexTryRemove_def
  IdleIndexTryRemove_def RebuildWaitingQueueExcluding_def RemoveFromIdle_def
  TryGetAnyGuestNameForUser_def SendToUser_def BroadcastActiveUserCount_def group_adds_def
  group_removes_def OnConnectedAsync_def RegisterUser_def JoinSession_def waiting_msg_def
  session_payload_def JoinChat_def SkipChat_def NextChat_def caller_error_def SendMessage_def
  SendVoiceNote_def SendImage_def OnDisconnectedAsync_def is_participant_def after_grace_def
  grace_elapsed_def RemoveUser_def call_payload_def AcceptCall_def RejectCall_def

lemma dec_digit: "n < 10 \<Longrightarrow> dec n = [''0123456789'' ! n]"
  by (simp add: dec.simps)

subsection \<open>Frame and effect of the pool helpers\<close>

lemmas pool_defs = EnqueueWaiting_def MoveToIdle_def WaitingIndexTryRemove_def
  IdleIndexTryRemove_def RebuildWaitingQueueExcluding_def RemoveFromIdle_def

lemma pool_frame [simp]:
  "UserConnectionMap (EnqueueWaiting u s) = UserConnectionMap s"
  "ConnectionProfiles (EnqueueWaiting u s) = ConnectionProfiles s"
  "ActiveSessions (EnqueueWaiting u s) = ActiveSessions s"
  "SessionKeys (EnqueueWaiting u s) = SessionKeys s"
  "GraceTimers (EnqueueWaiting u s) = GraceTimers s"
  "UserConnectionMap (MoveToIdle u s) = UserConnectionMap s"
  "ConnectionProfiles (MoveToIdle u s) = ConnectionProfiles s"
  "ActiveSessions (MoveToIdle u s) = ActiveSessions s"
  "SessionKeys (MoveToIdle u s) = SessionKeys s"
  "GraceTimers (MoveToIdle u s) = GraceTimers s"
  "WaitingQueue (MoveToIdle u s) = WaitingQueue s"
  "UserConnectionMap (WaitingIndexTryRemove u s) = UserConnectionMap s"
  "ConnectionProfiles (WaitingIndexTryRemove u s) = ConnectionProfiles s"
  "ActiveSessions (WaitingIndexTryRemove u s) = ActiveSessions s"
  "SessionKeys (WaitingIndexTryRemove u s) = SessionKeys s"
  "GraceTimers (WaitingIndexTryRemove u s) = GraceTimers s"
  "WaitingQueue (WaitingIndexTryRemove u s) = WaitingQueue s"
  "IdleIndex (WaitingIndexTryRemove u s) = IdleIndex s"
  "UserConnectionMap (IdleIndexTryRemove u s) = UserConnectionMap s"
  "ConnectionProfiles (IdleIndexTryRemove u s) = ConnectionProfiles s"
  "ActiveSessions (IdleIndexTryRemove u s) = ActiveSessions s"
  "SessionKeys (IdleIndexTryRemove u s) = SessionKeys s"
  "GraceTimers (IdleIndexTryRemove u s) = GraceTimers s"
  "WaitingQueue (IdleIndexTryRemove u s) = WaitingQueue s"
  "WaitingIndex (IdleIndexTryRemove u s) = WaitingIndex s"
  "UserConnectionMap (RebuildWaitingQueueExcluding u s) = UserConnectionMap s"
  "ConnectionProfiles (RebuildWaitingQueueExcluding u s) = ConnectionProfiles s"
  "ActiveSessions (RebuildWaitingQueueExcluding u s) = ActiveSessions s"
  "SessionKeys (RebuildWaitingQueueExcluding u s) = SessionKeys s"
  "GraceTimers (RebuildWaitingQueueExcluding u s) = GraceTimers s"
  "WaitingIndex (RebuildWaitingQueueExcluding u s) = WaitingIndex s"
  "IdleIndex (RebuildWaitingQueueExcluding u s) = IdleIndex s"
  "UserConnectionMap (RemoveFromIdle u s) = UserConnectionMap s"
  "ConnectionProfiles (RemoveFromIdle u s) = ConnectionProfiles s"
  "ActiveSessions (RemoveFromIdle u s) = ActiveSessions s"
  "SessionKeys (RemoveFromIdle u s) = SessionKeys s"
  "GraceTimers (RemoveFromIdle u s) = GraceTimers s"
  by (simp_all add: pool_defs Let_def)

lemma pool_effect:
  "WaitingQueue (EnqueueWaiting u s) = (if u \<in> WaitingIndex s then WaitingQueue s else WaitingQueue s @ [u])"
  "WaitingIndex (EnqueueWaiting u s) = insert u (WaitingIndex s)"
  "IdleIndex (EnqueueWaiting u s) = IdleIndex s - {u}"
  "WaitingIndex (MoveToIdle u s) = WaitingIndex s - {u}"
  "IdleIndex (MoveToIdle u s) = insert u (IdleIndex s)"
  "WaitingIndex (WaitingIndexTryRemove u s) = WaitingIndex s - {u}"
  "IdleIndex (IdleIndexTryRemove u s) = IdleIndex s - {u}"
  "WaitingQueue (RebuildWaitingQueueExcluding u s) = filter (\<lambda>v. v \<noteq> u) (WaitingQueue s)"
  "WaitingQueue (RemoveFromIdle u s) = filter (\<lambda>v. u = [] \<or> v \<noteq> u) (WaitingQueue s)"
  "WaitingIndex (RemoveFromIdle u s) = {v \<in> WaitingIndex s. u = [] \<or> v \<noteq> u}"
  "IdleIndex (RemoveFromIdle u s) = {v \<in> IdleIndex s. u = [] \<or> v \<noteq> u}"
  by (auto simp add: pool_defs Let_def)

lemma dequeue_loop_dropWhile:
  "dequeue_loop q W =
     (case dropWhile (\<lambda>u. u \<notin> W) q of
        [] \<Rightarrow> (None, [], W)
      | m # rest \<Rightarrow> (Some m, rest, W - {m}))"
  by (induction q) auto

subsection \<open>Relay: what is verified before a broadcast\<close>

text \<open>
  \<open>SendMessage\<close> broadcasts only for a session that exists and names the caller's
  identity; in every other case the caller alone gets an \<open>Error\<close> event and the state is
  unchanged.
\<close>

lemma SendMessage_verifies:
  "fst (SendMessage s cid sessionId message now) = s
   \<and> ((\<exists>userId g u1 u2. map_of (ConnectionProfiles s) cid = Some (userId, g)
          \<and> map_of (ActiveSessions s) sessionId = Some (u1, u2) \<and> (u1 = userId \<or> u2 = userId))
       \<or> (\<exists>msg. snd (SendMessage s cid sessionId message now) = [Send (Caller cid) ''Error'' (JStr msg)]))"
  by (auto simp: SendMessage_def caller_error_def Let_def split: option.splits prod.splits)

text \<open>
  Claim C1 (every relay operation verifies the session and the sender's membership
  before broadcasting, and reports an invalid-session error to the caller otherwise).
  The two media paths do not: with one connection \<open>c1\<close> of identity \<open>a\<close> and an empty
  session table, \<open>SendVoiceNote\<close> and \<open>SendImage\<close> for the session id \<open>nosuch\<close>
  broadcast to that group and report no error.
\<close>

theorem media_relay_skips_session_check:
  "snd (SendVoiceNote (fst (run init_state [Connect ''c1'' ''a''])) ''c1'' ''nosuch'' ''AAAA'')
     = [Send (Group ''nosuch'') ''ReceiveVoiceNote''
          (JObj [(''userId'', JStr ''a''), (''from'', JStr ''Unknown''), (''audio'', JStr ''AAAA'')])]
   \<and> snd (SendImage (fst (run init_state [Connect ''c1'' ''a''])) ''nosuch'' ''a'' (Some ''AAAA'') 7)
     = [Send (Group ''nosuch'') ''UploadingImage'' (JObj [(''From'', JStr ''a'')]),
        Send (Group ''nosuch'') ''ReceiveImage''
          (JObj [(''userId'', JStr ''a''), (''from'', JStr ''Unknown''), (''Base64'', JStr ''AAAA''),
                 (''Timestamp'', JNum 7)])]
   \<and> ActiveSessions (fst (run init_state [Connect ''c1'' ''a''])) = []"
  by (simp add: hub_defs)

text \<open>
  Claim C9: every \<open>SendImage\<close> starts with the \<open>UploadingImage\<close> broadcast to the group
  of the session id it was given and leaves the state as it was; when the image is null
  or empty that broadcast is the only effect, so neither \<open>ReceiveImage\<close> nor an error
  follows.
\<close>

theorem SendImage_uploading_then_silent:
  "fst (SendImage s sessionId fromUser base64Image now) = s
   \<and> (\<exists>rest. snd (SendImage s sessionId fromUser base64Image now)
         = Send (Group sessionId) ''UploadingImage'' (JObj [(''From'', JStr fromUser)]) # rest)
   \<and> (IsNullOrEmpty base64Image \<longrightarrow>
        snd (SendImage s sessionId fromUser base64Image now)
         = [Send (Group sessionId) ''UploadingImage'' (JObj [(''From'', JStr fromUser)])])"
  by (simp add: SendImage_def Let_def)

theorem SendImage_uploading_then_silent_witness:
  "IsNullOrEmpty None \<and> IsNullOrEmpty (Some [])
   \<and> SendImage init_state ''s1'' ''a'' None 7
       = (init_state, [Send (Group ''s1'') ''UploadingImage'' (JObj [(''From'', JStr ''a'')])])
   \<and> SendImage init_state ''s1'' ''a'' (Some []) 7
       = (init_state, [Send (Group ''s1'') ''UploadingImage'' (JObj [(''From'', JStr ''a'')])])"
  using SendImage_uploading_then_silent [of init_state "''s1''" "''a''" None 7]
    SendImage_uploading_then_silent [of init_state "''s1''" "''a''" "Some []" 7]
  by (simp add: IsNullOrEmpty_def prod_eq_iff)

subsection \<open>Registration\<close>

text \<open>
  Claim C10: \<open>RegisterUser\<close> on a connection that has no profile entry changes nothing
  and sends nothing.
\<close>

theorem RegisterUser_without_profile:
  "map_of (ConnectionProfiles s) connectionId = None \<Longrightarrow>
   RegisterUser s connectionId guestName = (s, [])"
  by (simp add: RegisterUser_def)

theorem RegisterUser_without_profile_witness:
  "map_of (ConnectionProfiles (fst (run init_state [Connect ''c1'' ''a'', Remove ''a'']))) ''c1'' = None
   \<and> RegisterUser (fst (run init_state [Connect ''c1'' ''a'', Remove ''a''])) ''c1'' (Some ''Ann'')
       = (fst (run init_state [Connect ''c1'' ''a'', Remove ''a'']), [])"
proof -
  have h: "map_of (ConnectionProfiles (fst (run init_state [Connect ''c1'' ''a'', Remove ''a'']))) ''c1'' = None"
    by (simp add: hub_defs)
  show ?thesis
    using h RegisterUser_without_profile [OF h, of "Some ''Ann''"] by simp
qed

subsection \<open>Call signalling\<close>

text \<open>
  \<open>AcceptCall\<close> tells every connection of each side the identity of the other side.
\<close>

lemma AcceptCall_symmetric:
  "fst (AcceptCall s sessionId fromUser toUser) = s
   \<and> snd (AcceptCall s sessionId fromUser toUser)
       = SendToUser s fromUser ''CallAccepted'' (JObj [(''From'', JStr toUser), (''SessionId'', JStr sessionId)])
       @ SendToUser s toUser ''CallAccepted'' (JObj [(''From'', JStr fromUser), (''SessionId'', JStr sessionId)])"
  by (simp add: AcceptCall_def call_payload_def)

text \<open>
  Claim C8 (accept and reject each name the counterpart identity in \<open>From\<close> on both
  sides). \<open>RejectCall\<close> does not: with connection \<open>c1\<close> of identity \<open>a\<close> and \<open>c2\<close> of
  identity \<open>b\<close>, \<open>RejectCall s a b\<close> sends \<open>From = b\<close> to both, so \<open>b\<close> is told its own
  identity instead of \<open>a\<close>.
\<close>

theorem RejectCall_callee_gets_own_identity:
  "snd (RejectCall (fst (run init_state [Connect ''c1'' ''a'', Connect ''c2'' ''b''])) ''s'' ''a'' ''b'')
     = [Send (Client ''c1'') ''CallRejected'' (JObj [(''From'', JStr ''b''), (''SessionId'', JStr ''s'')]),
        Send (Client ''c2'') ''CallRejected'' (JObj [(''From'', JStr ''b''), (''SessionId'', JStr ''s'')])]"
  by (simp add: hub_defs)

subsection \<open>Sessions per identity\<close>

text \<open>
  Claim C2 (an identity is a participant of at most one active session). \<open>JoinChat\<close>
  does not look at the sessions of its caller: \<open>b\<close> is paired with \<open>a\<close>, \<open>c\<close> starts
  waiting, and a second \<open>JoinChat\<close> of \<open>b\<close> pairs it with \<open>c\<close> while the first session
  is still in the table.
\<close>

theorem identity_in_two_sessions:
  "ActiveSessions (fst (run init_state
      [Connect ''c1'' ''a'', Connect ''c2'' ''b'', Connect ''c3'' ''c'',
       Join ''c1'' 1 ''k1'', Join ''c2'' 2 ''k2'', Join ''c3'' 3 ''k3'', Join ''c2'' 4 ''k4'']))
   = [(''b-a-2'', (''b'', ''a'')), (''b-c-4'', (''b'', ''c''))]"
  by (simp add: hub_defs dec_digit Let_def)

subsection \<open>Connection registry\<close>

text \<open>
  Claim C7 (a connection id has a profile entry exactly when it is listed under some
  identity). \<open>JoinSession\<close> writes a profile for a connection that has none and lists it
  nowhere: after \<open>RemoveUser\<close> of its identity, connection \<open>c1\<close> calls \<open>JoinSession\<close>
  and then has a profile while the identity map is empty.
\<close>

theorem profile_without_registry_entry:
  "ConnectionProfiles (fst (run init_state [Connect ''c1'' ''a'', Remove ''a'', JoinSess ''c1'' ''s'' ''g'']))
     = [(''c1'', (''g'', Some []))]
   \<and> (\<forall>u. UserConnectionMap (fst (run init_state
              [Connect ''c1'' ''a'', Remove ''a'', JoinSess ''c1'' ''s'' ''g''])) u = None)"
  by (simp add: hub_defs)

subsection \<open>Pairing\<close>


lemma JoinChat_matched_state:
  assumes p: "map_of (ConnectionProfiles s) cid = Some (userId, g)"
    and d: "dequeue_loop (WaitingQueue s) (WaitingIndex s) = (Some m, q, idx)"
    and l: "UserConnectionMap s m = Some mconns" "mconns \<noteq> []"
    and ne: "m \<noteq> userId"
  shows "fst (JoinChat s cid now guid) =
     RemoveFromIdle m (RemoveFromIdle userId
       (s\<lparr>WaitingQueue := q, WaitingIndex := idx,
           ActiveSessions := AList.update (userId @ ''-'' @ m @ ''-'' @ dec now) (userId, m) (ActiveSessions s),
           SessionKeys := (SessionKeys s)(userId @ ''-'' @ m @ ''-'' @ dec now \<mapsto> guid)\<rparr>))"
  using assms
  by (simp add: JoinChat_def TryDequeueWaiting_def Let_def)



subsection \<open>The matching algorithm\<close>

lemma JoinChat_none:
  assumes "map_of (ConnectionProfiles s) cid = Some (userId, g)"
    and d: "dequeue_loop (WaitingQueue s) (WaitingIndex s) = (None, q, idx)"
  shows "JoinChat s cid now guid
     = (EnqueueWaiting userId (s\<lparr>WaitingQueue := q, WaitingIndex := idx\<rparr>), [waiting_msg cid])"
  using assms by (simp add: JoinChat_def TryDequeueWaiting_def)

lemma JoinChat_rejected:
  assumes "map_of (ConnectionProfiles s) cid = Some (userId, g)"
    and d: "dequeue_loop (WaitingQueue s) (WaitingIndex s) = (Some m, q, idx)"
    and r: "\<not> has_live_connection s m \<or> m = userId"
  shows "JoinChat s cid now guid
     = (EnqueueWaiting userId (s\<lparr>WaitingQueue := q, WaitingIndex := idx\<rparr>), [waiting_msg cid])"
proof (cases "UserConnectionMap s m")
  case None
  then show ?thesis using assms by (simp add: JoinChat_def TryDequeueWaiting_def)
next
  case (Some mc)
  with r have "mc = [] \<or> m = userId"
    by (simp add: has_live_connection_def)
  then show ?thesis
  proof
    assume "mc = []"
    with Some assms(1) d show ?thesis by (simp add: JoinChat_def TryDequeueWaiting_def)
  next
    assume "m = userId"
    with Some assms(1) d show ?thesis by (simp add: JoinChat_def TryDequeueWaiting_def)
  qed
qed

text \<open>
  Claim C3 says that \<open>JoinChat\<close> goes on popping past a stale or self head until it
  finds a head that is neither, and matches that one. It does not, in two ways.
  In \<open>stale_head_state\<close> the specification's algorithm matches the caller \<open>a\<close> with
  \<open>b\<close>, while \<open>JoinChat\<close> drops the stale head \<open>z\<close>, leaves \<open>b\<close> waiting, creates no
  session and enqueues \<open>a\<close> behind \<open>b\<close>. In \<open>idle_head_state\<close>, reached by a run from the
  empty hub, the head \<open>b\<close> has a live connection and is not the caller \<open>c\<close>, so the
  specification's algorithm matches them, while \<open>JoinChat\<close> drops \<open>b\<close>, which is no
  longer in \<open>WaitingIndex\<close>, and enqueues \<open>c\<close>.
\<close>

theorem JoinChat_requestMatch_counterexample:
  "fst (spec_requestMatch (has_live_connection stale_head_state) ''a'' (WaitingQueue stale_head_state)) = Some ''b''
   \<and> snd (JoinChat stale_head_state ''c1'' 1 ''k'')
       = [Send (Caller ''c1'') ''Waiting'' (JStr ''Waiting for a match...'')]
   \<and> ActiveSessions (fst (JoinChat stale_head_state ''c1'' 1 ''k'')) = []
   \<and> WaitingQueue (fst (JoinChat stale_head_state ''c1'' 1 ''k'')) = [''b'', ''a'']
   \<and> fst (spec_requestMatch (has_live_connection idle_head_state) ''c'' (WaitingQueue idle_head_state)) = Some ''b''
   \<and> snd (JoinChat idle_head_state ''c3'' 4 ''k'')
       = [Send (Caller ''c3'') ''Waiting'' (JStr ''Waiting for a match...'')]
   \<and> ActiveSessions (fst (JoinChat idle_head_state ''c3'' 4 ''k'')) = []
   \<and> WaitingQueue (fst (JoinChat idle_head_state ''c3'' 4 ''k'')) = [''c'']"
proof -
  have a: "fst (spec_requestMatch (has_live_connection stale_head_state) ''a'' (WaitingQueue stale_head_state)) = Some ''b''
   \<and> snd (JoinChat stale_head_state ''c1'' 1 ''k'')
       = [Send (Caller ''c1'') ''Waiting'' (JStr ''Waiting for a match...'')]
   \<and> ActiveSessions (fst (JoinChat stale_head_state ''c1'' 1 ''k'')) = []
   \<and> WaitingQueue (fst (JoinChat stale_head_state ''c1'' 1 ''k'')) = [''b'', ''a'']"
    by (simp add: stale_head_state_def has_live_connection_def hub_defs Let_def)
  have b: "fst (spec_requestMatch (has_live_connection idle_head_state) ''c'' (WaitingQueue idle_head_state)) = Some ''b''
   \<and> snd (JoinChat idle_head_state ''c3'' 4 ''k'')
       = [Send (Caller ''c3'') ''Waiting'' (JStr ''Waiting for a match...'')]
   \<and> ActiveSessions (fst (JoinChat idle_head_state ''c3'' 4 ''k'')) = []
   \<and> WaitingQueue (fst (JoinChat idle_head_state ''c3'' 4 ''k'')) = [''c'']"
    by (simp add: idle_head_state_def idle_in_queue_state_def has_live_connection_def hub_defs
        Let_def dec_digit)
  from a b show ?thesis by simp
qed

text \<open>
  Claim C3 as amended: \<open>JoinChat\<close> drops the heads that are no longer in
  \<open>WaitingIndex\<close> and examines the first head \<open>m\<close> that is, and only that one. When \<open>m\<close>
  has no live connection or is the caller's own identity, \<open>m\<close> is discarded, no session
  is created and the caller is told to wait and is appended to the rest of the queue
  (unless it is still in the index). Otherwise \<open>m\<close> is matched with the caller, and the
  caller is not enqueued: the queue is the rest without the entries of the two. When no
  head is in the index, the queue is used up and the caller is enqueued.
\<close>

theorem JoinChat_examines_one_candidate:
  assumes "map_of (ConnectionProfiles s) cid = Some (userId, g)"
  shows "case dropWhile (\<lambda>u. u \<notin> WaitingIndex s) (WaitingQueue s) of
      [] \<Rightarrow>
        snd (JoinChat s cid now guid) = [waiting_msg cid]
        \<and> ActiveSessions (fst (JoinChat s cid now guid)) = ActiveSessions s
        \<and> WaitingQueue (fst (JoinChat s cid now guid)) = (if userId \<in> WaitingIndex s then [] else [userId])
        \<and> WaitingIndex (fst (JoinChat s cid now guid)) = insert userId (WaitingIndex s)
    | m # rest \<Rightarrow>
        if \<not> has_live_connection s m \<or> m = userId
        then snd (JoinChat s cid now guid) = [waiting_msg cid]
           \<and> ActiveSessions (fst (JoinChat s cid now guid)) = ActiveSessions s
           \<and> WaitingQueue (fst (JoinChat s cid now guid))
               = (if userId \<in> WaitingIndex s - {m} then rest else rest @ [userId])
           \<and> WaitingIndex (fst (JoinChat s cid now guid)) = insert userId (WaitingIndex s - {m})
        else map_of (ActiveSessions (fst (JoinChat s cid now guid))) (userId @ ''-'' @ m @ ''-'' @ dec now)
               = Some (userId, m)
           \<and> WaitingQueue (fst (JoinChat s cid now guid))
               = filter (\<lambda>v. (userId = [] \<or> v \<noteq> userId) \<and> (m = [] \<or> v \<noteq> m)) rest
           \<and> WaitingIndex (fst (JoinChat s cid now guid))
               = {v \<in> WaitingIndex s. v \<noteq> m \<and> (userId = [] \<or> v \<noteq> userId)}"
proof (cases "dropWhile (\<lambda>u. u \<notin> WaitingIndex s) (WaitingQueue s)")
  case Nil
  have d: "dequeue_loop (WaitingQueue s) (WaitingIndex s) = (None, [], WaitingIndex s)"
    unfolding dequeue_loop_dropWhile Nil by simp
  show ?thesis
    unfolding Nil JoinChat_none [OF assms d] by (simp add: pool_effect)
next
  case (Cons m rest)
  have d: "dequeue_loop (WaitingQueue s) (WaitingIndex s) = (Some m, rest, WaitingIndex s - {m})"
    unfolding dequeue_loop_dropWhile Cons by simp
  show ?thesis
  proof (cases "\<not> has_live_connection s m \<or> m = userId")
    case True
    show ?thesis
      unfolding Cons list.case if_P [OF True] JoinChat_rejected [OF assms d True]
      by (simp add: pool_effect)
  next
    case False
    then obtain mconns where l: "UserConnectionMap s m = Some mconns" "mconns \<noteq> []" and ne: "m \<noteq> userId"
      by (auto simp: has_live_connection_def split: option.splits)
    note st = JoinChat_matched_state [OF assms d l ne, of now guid]
    have q: "WaitingQueue (fst (JoinChat s cid now guid))
               = filter (\<lambda>v. (userId = [] \<or> v \<noteq> userId) \<and> (m = [] \<or> v \<noteq> m)) rest"
      unfolding st by (simp add: pool_effect)
    have w: "WaitingIndex (fst (JoinChat s cid now guid))
               = {v \<in> WaitingIndex s. v \<noteq> m \<and> (userId = [] \<or> v \<noteq> userId)}"
      unfolding st by (auto simp: pool_effect)
    have a: "map_of (ActiveSessions (fst (JoinChat s cid now guid))) (userId @ ''-'' @ m @ ''-'' @ dec now)
               = Some (userId, m)"
      unfolding st by (simp add: update_conv')
    show ?thesis
      unfolding Cons list.case if_not_P [OF False] using q w a by simp
  qed
qed


theorem JoinChat_examines_one_candidate_witness:
  "map_of (ConnectionProfiles stale_head_state) ''c1'' = Some (''a'', Some [])
   \<and> dropWhile (\<lambda>u. u \<notin> WaitingIndex stale_head_state) (WaitingQueue stale_head_state) = [''z'', ''b'']
   \<and> \<not> has_live_connection stale_head_state ''z''
   \<and> snd (JoinChat stale_head_state ''c1'' 1 ''k'') = [waiting_msg ''c1'']
   \<and> WaitingQueue (fst (JoinChat stale_head_state ''c1'' 1 ''k'')) = [''b'', ''a'']
   \<and> map_of (ConnectionProfiles waiting_state) ''c2'' = Some (''b'', Some ''Bob'')
   \<and> dropWhile (\<lambda>u. u \<notin> WaitingIndex waiting_state) (WaitingQueue waiting_state) = [''a'']
   \<and> has_live_connection waiting_state ''a''
   \<and> map_of (ActiveSessions (fst (JoinChat waiting_state ''c2'' 5 ''K''))) ''b-a-5'' = Some (''b'', ''a'')
   \<and> WaitingQueue (fst (JoinChat waiting_state ''c2'' 5 ''K'')) = []
   \<and> dropWhile (\<lambda>u. u \<notin> WaitingIndex paired_state) (WaitingQueue paired_state) = []
   \<and> WaitingQueue (fst (JoinChat paired_state ''c1'' 3 ''k'')) = [''a'']"
proof -
  have h1: "map_of (ConnectionProfiles stale_head_state) ''c1'' = Some (''a'', Some [])"
    by (simp add: stale_head_state_def)
  have d1: "dropWhile (\<lambda>u. u \<notin> WaitingIndex stale_head_state) (WaitingQueue stale_head_state) = [''z'', ''b'']"
    by (simp add: stale_head_state_def)
  have l1: "\<not> has_live_connection stale_head_state ''z''"
    by (simp add: stale_head_state_def has_live_connection_def)
  have w1: "WaitingIndex stale_head_state = {''z'', ''b''}"
    by (simp add: stale_head_state_def)
  have h2: "map_of (ConnectionProfiles waiting_state) ''c2'' = Some (''b'', Some ''Bob'')"
    by (simp add: waiting_state_def hub_defs Let_def)
  have d2: "dropWhile (\<lambda>u. u \<notin> WaitingIndex waiting_state) (WaitingQueue waiting_state) = [''a'']"
    by (simp add: waiting_state_def hub_defs Let_def)
  have l2: "has_live_connection waiting_state ''a''"
    by (simp add: waiting_state_def has_live_connection_def hub_defs Let_def)
  have h3: "map_of (ConnectionProfiles paired_state) ''c1'' = Some (''a'', Some [])"
    by (simp add: paired_state_def hub_defs Let_def dec_digit)
  have d3: "dropWhile (\<lambda>u. u \<notin> WaitingIndex paired_state) (WaitingQueue paired_state) = []"
    by (simp add: paired_state_def hub_defs Let_def dec_digit)
  have w3: "WaitingIndex paired_state = {}"
    by (simp add: paired_state_def hub_defs Let_def dec_digit)
  have c1: "snd (JoinChat stale_head_state ''c1'' 1 ''k'') = [waiting_msg ''c1'']
     \<and> WaitingQueue (fst (JoinChat stale_head_state ''c1'' 1 ''k'')) = [''b'', ''a'']"
    using JoinChat_examines_one_candidate [OF h1, of 1 "''k''"] l1
    unfolding d1 by (simp add: w1)
  have c2: "map_of (ActiveSessions (fst (JoinChat waiting_state ''c2'' 5 ''K''))) ''b-a-5'' = Some (''b'', ''a'')
     \<and> WaitingQueue (fst (JoinChat waiting_state ''c2'' 5 ''K'')) = []"
    using JoinChat_examines_one_candidate [OF h2, of 5 "''K''"] l2
    unfolding d2 by (simp add: dec_digit)
  have c3: "WaitingQueue (fst (JoinChat paired_state ''c1'' 3 ''k'')) = [''a'']"
    using JoinChat_examines_one_candidate [OF h3, of 3 "''k''"]
    unfolding d3 by (simp add: w3)
  show ?thesis
    using h1 d1 l1 h2 d2 l2 d3 c1 c2 c3 by simp
qed

subsection \<open>The grace window\<close>

text \<open>
  When the timer of a detach fires while the identity has a live connection, nothing
  is torn down: only the timer is gone, and the connection count is broadcast.
\<close>

lemma after_grace_connected:
  "UserConnectionMap s userId = Some conns \<Longrightarrow> conns \<noteq> [] \<Longrightarrow>
   after_grace s userId departingName = (s, [BroadcastActiveUserCount s])"
  by (simp add: after_grace_def)







subsection \<open>The waiting queue and the idle set\<close>

lemma dequeue_loop_facts:
  assumes "dequeue_loop q W = (r, q', W')"
  shows "W' \<subseteq> W" "length q' \<le> length q" "r \<noteq> None \<Longrightarrow> length q' < length q" "r = None \<Longrightarrow> q' = []"
  using assms by (induction q) (auto split: if_splits)

lemma list_all_update:
  "list_all P al \<Longrightarrow> P (k, v) \<Longrightarrow> list_all P (AList.update k v al)"
  by (induction al) auto

lemma list_all_delete: "list_all P al \<Longrightarrow> list_all P (AList.delete k al)"
  by (simp add: AList.delete_eq list_all_iff)

lemma list_all_fold_delete: "list_all P al \<Longrightarrow> list_all P (fold AList.delete ks al)"
  by (induction ks arbitrary: al) (simp_all add: list_all_delete)

lemma list_all_profile:
  "list_all (\<lambda>e. fst (snd e) \<noteq> []) ps \<Longrightarrow> map_of ps c = Some (u, g) \<Longrightarrow> u \<noteq> []"
  by (auto simp: list_all_iff dest!: map_of_SomeD)

lemma fst_next_cleanup_Cons:
  "fst (next_cleanup u ((k, (u1, u2)) # rest) s) =
     (if u1 = u \<or> u2 = u
      then fst (next_cleanup u rest
             (s\<lparr>ActiveSessions := AList.delete k (ActiveSessions s),
                SessionKeys := (SessionKeys s)(k := None)\<rparr>))
      else fst (next_cleanup u rest s))"
  by (simp add: Let_def case_prod_beta)

lemma next_cleanup_frame:
  "WaitingQueue (fst (next_cleanup u xs s)) = WaitingQueue s
   \<and> WaitingIndex (fst (next_cleanup u xs s)) = WaitingIndex s
   \<and> IdleIndex (fst (next_cleanup u xs s)) = IdleIndex s
   \<and> ConnectionProfiles (fst (next_cleanup u xs s)) = ConnectionProfiles s"
proof (induction xs arbitrary: s)
  case Nil
  then show ?case by simp
next
  case (Cons x xs)
  obtain k u1 u2 where x: "x = (k, (u1, u2))" by (cases x) auto
  show ?case
    unfolding x fst_next_cleanup_Cons using Cons.IH by simp
qed

lemma fst_remove_cleanup_Cons:
  "fst (remove_cleanup u ((k, (u1, u2)) # rest) s) =
     (if u1 = u \<or> u2 = u
      then fst (remove_cleanup u rest
             ((MoveToIdle (if u1 = u then u2 else u1)
                 (s\<lparr>ActiveSessions := AList.delete k (ActiveSessions s)\<rparr>))
              \<lparr>SessionKeys := (SessionKeys s)(k := None)\<rparr>))
      else fst (remove_cleanup u rest s))"
  by (simp add: Let_def case_prod_beta)

lemma remove_cleanup_frame:
  "WaitingQueue (fst (remove_cleanup u xs s)) = WaitingQueue s
   \<and> ConnectionProfiles (fst (remove_cleanup u xs s)) = ConnectionProfiles s"
proof (induction xs arbitrary: s)
  case Nil
  then show ?case by simp
next
  case (Cons x xs)
  obtain k u1 u2 where x: "x = (k, (u1, u2))" by (cases x) auto
  show ?case
    unfolding x fst_remove_cleanup_Cons using Cons.IH by simp
qed

lemma remove_cleanup_disjoint:
  "WaitingIndex s \<inter> IdleIndex s = {} \<Longrightarrow>
   WaitingIndex (fst (remove_cleanup u xs s)) \<inter> IdleIndex (fst (remove_cleanup u xs s)) = {}"
proof (induction xs arbitrary: s)
  case Nil
  then show ?case by simp
next
  case (Cons x xs)
  obtain k u1 u2 where x: "x = (k, (u1, u2))" by (cases x) auto
  have d: "WaitingIndex ((MoveToIdle v (s\<lparr>ActiveSessions := a\<rparr>))\<lparr>SessionKeys := b\<rparr>)
         \<inter> IdleIndex ((MoveToIdle v (s\<lparr>ActiveSessions := a\<rparr>))\<lparr>SessionKeys := b\<rparr>) = {}" for v a b
    using Cons.prems by (auto simp: pool_effect)
  show ?case
    unfolding x fst_remove_cleanup_Cons using Cons.IH [OF d] Cons.IH [OF Cons.prems] by simp
qed

lemma white_space_empty: "\<not> IsNullOrWhiteSpace u \<Longrightarrow> u \<noteq> []"
  by (auto simp: IsNullOrWhiteSpace_def)

lemma inv_OnConnectedAsync: "pools_inv s \<Longrightarrow> pools_inv (fst (OnConnectedAsync s cid u))"
  by (simp add: pools_inv_def OnConnectedAsync_def Let_def list_all_update white_space_empty)

lemma inv_RegisterUser: "pools_inv s \<Longrightarrow> pools_inv (fst (RegisterUser s cid g))"
  by (auto simp: pools_inv_def RegisterUser_def list_all_update list_all_profile split: option.splits)

lemma inv_JoinSession: "pools_inv s \<Longrightarrow> u \<noteq> [] \<Longrightarrow> pools_inv (fst (JoinSession s cid sid u))"
  by (simp add: pools_inv_def JoinSession_def list_all_update)

lemma state_unchanged:
  "fst (SendMessage s cid sid msg now) = s"
  "fst (SendVoiceNote s cid sid a) = s"
  "fst (SendImage s sid u img now) = s"
  "fst (AcceptCall s sid u v) = s"
  "fst (RejectCall s sid u v) = s"
  by (simp_all add: SendMessage_def SendVoiceNote_def SendImage_def AcceptCall_def RejectCall_def
      Let_def split: option.splits prod.splits)

lemma inv_SkipChat: "pools_inv s \<Longrightarrow> pools_inv (fst (SkipChat s cid sid))"
  by (auto simp: pools_inv_def SkipChat_def Let_def pool_effect split: option.splits prod.splits)

lemma inv_OnDisconnectedAsync: "pools_inv s \<Longrightarrow> pools_inv (fst (OnDisconnectedAsync s cid))"
  by (auto simp: pools_inv_def OnDisconnectedAsync_def Let_def list_all_delete split: option.splits prod.splits)

lemma length_filter_le1: "length q \<le> Suc 0 \<Longrightarrow> length (filter P q) \<le> Suc 0"
  by (rule order_trans [OF length_filter_le])

lemma inv_after_grace: "pools_inv s \<Longrightarrow> pools_inv (fst (after_grace s u n))"
  by (auto simp: pools_inv_def after_grace_def Let_def pool_effect length_filter_le1
      split: option.splits prod.splits)

lemma inv_grace_elapsed: "pools_inv s \<Longrightarrow> pools_inv (fst (grace_elapsed s u n))"
proof -
  assume i: "pools_inv s"
  then have "pools_inv (s\<lparr>GraceTimers := remove1 (u, n) (GraceTimers s)\<rparr>)"
    by (simp add: pools_inv_def)
  then show ?thesis
    using i by (simp add: grace_elapsed_def inv_after_grace)
qed

lemma inv_RemoveUser: "pools_inv s \<Longrightarrow> pools_inv (fst (RemoveUser s u))"
proof (cases "UserConnectionMap s u")
  case None
  then show "pools_inv s \<Longrightarrow> ?thesis" by (simp add: RemoveUser_def)
next
  case (Some conns)
  assume i: "pools_inv s"
  define s3 where "s3 = RebuildWaitingQueueExcluding u
     (IdleIndexTryRemove u (WaitingIndexTryRemove u
        (s\<lparr>UserConnectionMap := (UserConnectionMap s)(u := None),
            ConnectionProfiles := fold AList.delete conns (ConnectionProfiles s)\<rparr>)))"
  have r: "fst (RemoveUser s u) = fst (remove_cleanup u (ActiveSessions s3) s3)"
    using Some by (simp add: RemoveUser_def Let_def s3_def)
  have q: "length (WaitingQueue s3) \<le> 1"
    using i by (simp add: s3_def pools_inv_def pool_effect length_filter_le1)
  have d: "WaitingIndex s3 \<inter> IdleIndex s3 = {}"
    using i by (auto simp: s3_def pools_inv_def pool_effect)
  have p: "list_all (\<lambda>e. fst (snd e) \<noteq> []) (ConnectionProfiles s3)"
    using i by (simp add: s3_def pools_inv_def list_all_fold_delete)
  show ?thesis
    unfolding r pools_inv_def
    using q p remove_cleanup_disjoint [OF d] by (simp add: remove_cleanup_frame)
qed

lemma JoinChat_cases [case_names noprofile wait match]:
  obtains "map_of (ConnectionProfiles s) cid = None" "fst (JoinChat s cid now guid) = s"
  | userId g r q idx where "map_of (ConnectionProfiles s) cid = Some (userId, g)"
      "dequeue_loop (WaitingQueue s) (WaitingIndex s) = (r, q, idx)"
      "fst (JoinChat s cid now guid) = EnqueueWaiting userId (s\<lparr>WaitingQueue := q, WaitingIndex := idx\<rparr>)"
  | userId g m q idx where "map_of (ConnectionProfiles s) cid = Some (userId, g)"
      "dequeue_loop (WaitingQueue s) (WaitingIndex s) = (Some m, q, idx)"
      "fst (JoinChat s cid now guid) =
         RemoveFromIdle m (RemoveFromIdle userId
           (s\<lparr>WaitingQueue := q, WaitingIndex := idx,
               ActiveSessions := AList.update (userId @ ''-'' @ m @ ''-'' @ dec now) (userId, m) (ActiveSessions s),
               SessionKeys := (SessionKeys s)(userId @ ''-'' @ m @ ''-'' @ dec now \<mapsto> guid)\<rparr>))"
proof (cases "map_of (ConnectionProfiles s) cid")
  case None
  then have "fst (JoinChat s cid now guid) = s" by (simp add: JoinChat_def)
  with None show ?thesis by (rule that(1))
next
  case (Some p)
  obtain userId g where p: "map_of (ConnectionProfiles s) cid = Some (userId, g)"
    using Some by (cases p) auto
  obtain r q idx where d: "dequeue_loop (WaitingQueue s) (WaitingIndex s) = (r, q, idx)"
    by (cases "dequeue_loop (WaitingQueue s) (WaitingIndex s)") auto
  show ?thesis
  proof (cases r)
    case None
    with d have d': "dequeue_loop (WaitingQueue s) (WaitingIndex s) = (None, q, idx)" by simp
    show ?thesis
      using that(2) [OF p d] JoinChat_none [OF p d', of now guid] by simp
  next
    case (Some m)
    with d have d': "dequeue_loop (WaitingQueue s) (WaitingIndex s) = (Some m, q, idx)" by simp
    show ?thesis
    proof (cases "\<not> has_live_connection s m \<or> m = userId")
      case True
      show ?thesis
        using that(2) [OF p d] JoinChat_rejected [OF p d' True, of now guid] by simp
    next
      case False
      then obtain mconns where l: "UserConnectionMap s m = Some mconns" "mconns \<noteq> []" and ne: "m \<noteq> userId"
        by (auto simp: has_live_connection_def split: option.splits)
      show ?thesis
        using that(3) [OF p d'] JoinChat_matched_state [OF p d' l ne, of now guid] by simp
    qed
  qed
qed

lemma JoinChat_profiles:
  "ConnectionProfiles (fst (JoinChat s cid now guid)) = ConnectionProfiles s"
  by (cases rule: JoinChat_cases [of s cid now guid]) simp_all

lemma JoinChat_disjoint:
  assumes "WaitingIndex s \<inter> IdleIndex s = {}"
  shows "WaitingIndex (fst (JoinChat s cid now guid)) \<inter> IdleIndex (fst (JoinChat s cid now guid)) = {}"
proof (cases rule: JoinChat_cases [of s cid now guid])
  case noprofile
  then show ?thesis using assms by simp
next
  case (wait userId g r q idx)
  from dequeue_loop_facts(1) [OF wait(2)] assms show ?thesis
    unfolding wait(3) by (auto simp: pool_effect)
next
  case (match userId g m q idx)
  from dequeue_loop_facts(1) [OF match(2)] assms show ?thesis
    unfolding match(3) by (auto simp: pool_effect)
qed

lemma JoinChat_queue:
  assumes "length (WaitingQueue s) \<le> Suc 0
     \<or> (\<exists>x u g. WaitingQueue s = [x, u] \<and> map_of (ConnectionProfiles s) cid = Some (u, g)
            \<and> u \<in> WaitingIndex s \<and> x \<noteq> u)"
  shows "length (WaitingQueue (fst (JoinChat s cid now guid))) \<le> Suc 0"
proof (cases rule: JoinChat_cases [of s cid now guid])
  case noprofile
  then show ?thesis using assms by auto
next
  case (wait userId g r q idx)
  from assms show ?thesis
  proof
    assume le: "length (WaitingQueue s) \<le> Suc 0"
    have "q = []"
    proof (cases r)
      case None
      then show ?thesis using dequeue_loop_facts(4) [OF wait(2)] by simp
    next
      case (Some a)
      then have "length q < length (WaitingQueue s)"
        using dequeue_loop_facts(3) [OF wait(2)] by simp
      with le have "length q < Suc 0" by linarith
      then show ?thesis by simp
    qed
    then show ?thesis unfolding wait(3) by (simp add: pool_effect)
  next
    assume "\<exists>x u g. WaitingQueue s = [x, u] \<and> map_of (ConnectionProfiles s) cid = Some (u, g)
            \<and> u \<in> WaitingIndex s \<and> x \<noteq> u"
    then obtain x where x: "WaitingQueue s = [x, userId]" "userId \<in> WaitingIndex s" "x \<noteq> userId"
      using wait(1) by auto
    have "(q = [userId] \<and> userId \<in> idx) \<or> q = []"
      using wait(2) x by (auto split: if_splits)
    then show ?thesis unfolding wait(3) by (auto simp: pool_effect)
  qed
next
  case (match userId g m q idx)
  have "length q < length (WaitingQueue s)"
    using dequeue_loop_facts(3) [OF match(2)] by simp
  moreover have "length (WaitingQueue s) \<le> Suc (Suc 0)"
    using assms by auto
  ultimately have "length q \<le> Suc 0" by linarith
  then show ?thesis
    unfolding match(3) by (simp add: pool_effect length_filter_le1)
qed

lemma inv_JoinChat: "pools_inv s \<Longrightarrow> pools_inv (fst (JoinChat s cid now guid))"
  by (simp add: pools_inv_def JoinChat_profiles JoinChat_disjoint JoinChat_queue)

lemma fst_NextChat:
  assumes "map_of (ConnectionProfiles s) cid = Some (userId, g)"
  shows "fst (NextChat s cid now guid) =
     fst (JoinChat (EnqueueWaiting userId (WaitingIndexTryRemove userId
            (RemoveFromIdle userId (fst (next_cleanup userId (ActiveSessions s) s))))) cid now guid)"
  using assms by (simp add: NextChat_def Let_def case_prod_beta)

lemma inv_NextChat:
  assumes i: "pools_inv s"
  shows "pools_inv (fst (NextChat s cid now guid))"
proof (cases "map_of (ConnectionProfiles s) cid")
  case None
  then show ?thesis using i by (simp add: NextChat_def)
next
  case (Some p)
  obtain userId g where p: "map_of (ConnectionProfiles s) cid = Some (userId, g)"
    using Some by (cases p) auto
  have ne: "userId \<noteq> []"
    using i p by (auto simp: pools_inv_def dest: list_all_profile)
  define s1 where "s1 = fst (next_cleanup userId (ActiveSessions s) s)"
  define s2 where "s2 = EnqueueWaiting userId (WaitingIndexTryRemove userId (RemoveFromIdle userId s1))"
  note fr = next_cleanup_frame [of userId "ActiveSessions s" s, folded s1_def]
  have r: "fst (NextChat s cid now guid) = fst (JoinChat s2 cid now guid)"
    unfolding s2_def s1_def by (rule fst_NextChat [OF p])
  have q2: "WaitingQueue s2 = filter (\<lambda>v. v \<noteq> userId) (WaitingQueue s) @ [userId]"
    using ne by (simp add: s2_def pool_effect fr)
  have w2: "userId \<in> WaitingIndex s2"
    by (simp add: s2_def pool_effect)
  have d2: "WaitingIndex s2 \<inter> IdleIndex s2 = {}"
    using i by (auto simp: s2_def pool_effect fr pools_inv_def)
  have p2: "ConnectionProfiles s2 = ConnectionProfiles s"
    by (simp add: s2_def fr)
  have shape: "length (WaitingQueue s2) \<le> Suc 0
     \<or> (\<exists>x u g. WaitingQueue s2 = [x, u] \<and> map_of (ConnectionProfiles s2) cid = Some (u, g)
            \<and> u \<in> WaitingIndex s2 \<and> x \<noteq> u)"
  proof (cases "WaitingQueue s")
    case Nil
    then show ?thesis by (simp add: q2)
  next
    case (Cons x xs)
    with i have xs: "xs = []" by (simp add: pools_inv_def)
    show ?thesis
    proof (cases "x = userId")
      case True
      then show ?thesis by (simp add: q2 Cons xs)
    next
      case False
      then show ?thesis using w2 p by (simp add: q2 Cons xs p2)
    qed
  qed
  show ?thesis
    unfolding r pools_inv_def
    using JoinChat_queue [OF shape] JoinChat_disjoint [OF d2] i
    by (simp add: JoinChat_profiles p2 pools_inv_def)
qed

text \<open>Every admitted operation keeps the invariant, so every reachable state has it.\<close>

lemma inv_step: "pools_inv s \<Longrightarrow> admitted op \<Longrightarrow> pools_inv (fst (step s op))"
  by (cases op)
    (simp_all add: inv_OnConnectedAsync inv_RegisterUser inv_JoinChat inv_SkipChat inv_NextChat
      state_unchanged inv_OnDisconnectedAsync inv_grace_elapsed inv_RemoveUser inv_JoinSession)

lemma inv_init: "pools_inv init_state"
  by (simp add: pools_inv_def init_state_def)

lemma reachable_inv: "reachable s \<Longrightarrow> pools_inv s"
  by (induction rule: reachable.induct) (simp_all add: inv_init inv_step)

lemma fst_run_Cons: "fst (run s (op # ops)) = fst (run (fst (step s op)) ops)"
  by (simp add: case_prod_beta)

lemma reachable_run: "reachable s \<Longrightarrow> list_all admitted ops \<Longrightarrow> reachable (fst (run s ops))"
proof (induction ops arbitrary: s)
  case Nil
  then show ?case by simp
next
  case (Cons op ops)
  then have "reachable (fst (step s op))" by (simp add: reachable_step)
  then have "reachable (fst (run (fst (step s op)) ops))"
    using Cons by simp
  then show ?case by (simp only: fst_run_Cons)
qed

lemma reachable_idle_in_queue_state: "reachable idle_in_queue_state"
  unfolding idle_in_queue_state_def by (rule reachable_run [OF reachable_init]) simp

text \<open>
  Claim C5 as amended: in every reachable state the waiting queue holds no identity
  twice, and no identity is in the waiting index and in the idle index at once.
\<close>

theorem reachable_queue_distinct_index_idle_disjoint:
  "reachable s \<Longrightarrow> distinct (WaitingQueue s) \<and> WaitingIndex s \<inter> IdleIndex s = {}"
proof -
  assume "reachable s"
  then have i: "pools_inv s" by (rule reachable_inv)
  then have "length (WaitingQueue s) \<le> Suc 0" by (simp add: pools_inv_def)
  then have "distinct (WaitingQueue s)"
    by (cases "WaitingQueue s") auto
  with i show ?thesis by (simp add: pools_inv_def)
qed

text \<open>
  Claim C5 says that no identity is in the waiting queue and in the idle set at once.
  \<open>MoveToIdle\<close> takes an identity out of the waiting index only, so its queue entry
  stays until a dequeue drops it: in the reachable state \<open>idle_in_queue_state\<close>
  identity \<open>b\<close> is the head of the queue and idle.
\<close>

theorem idle_identity_still_in_queue:
  "reachable idle_in_queue_state
   \<and> WaitingQueue idle_in_queue_state = [''b'']
   \<and> ''b'' \<in> IdleIndex idle_in_queue_state
   \<and> ''b'' \<notin> WaitingIndex idle_in_queue_state"
proof -
  have "WaitingQueue idle_in_queue_state = [''b'']"
    by (simp add: idle_in_queue_state_def hub_defs Let_def dec_digit)
  moreover have "''b'' \<in> IdleIndex idle_in_queue_state"
    by (simp add: idle_in_queue_state_def hub_defs Let_def dec_digit)
  moreover have "''b'' \<notin> WaitingIndex idle_in_queue_state"
    by (simp add: idle_in_queue_state_def hub_defs Let_def dec_digit)
  ultimately show ?thesis
    using reachable_idle_in_queue_state by simp
qed

theorem reachable_queue_distinct_index_idle_disjoint_witness:
  "reachable idle_in_queue_state
   \<and> distinct (WaitingQueue idle_in_queue_state)
   \<and> WaitingIndex idle_in_queue_state \<inter> IdleIndex idle_in_queue_state = {}"
  using reachable_idle_in_queue_state
    reachable_queue_distinct_index_idle_disjoint [OF reachable_idle_in_queue_state]
  by simp

text \<open>
  With a connection bound to the empty identity the queue can hold an identity twice:
  \<open>RemoveFromIdle\<close> returns early for it, so \<open>NextChat\<close> enqueues it again.
\<close>

lemma empty_identity_twice_in_queue:
  "WaitingQueue (fst (run init_state
      [Connect ''c1'' ''a'', Remove ''a'', JoinSess ''c1'' ''s'' [], Join ''c1'' 1 ''k1'',
       Next ''c1'' 2 ''k2''])) = [[], []]"
  by (simp add: hub_defs Let_def)

end
